theory Spec2Isabelle
  imports Main
begin

section \<open>Data model\<close>

text \<open>
  The library keeps a key/value cache in step with the events of an eris client. Its
  objects are the caches, the client (an event emitter) and the cachers; all three are
  mutable JavaScript objects held by reference, so each kind lives in a store indexed by
  address. Cache and emitter operations are taken as synchronous.
\<close>

type_synonym addr = nat

text \<open>
  An entity payload (User, Channel, Member, Guild, Role). The library reads only
  \<^verbatim>\<open>id\<close> (here \<open>ident\<close>) and, for channels, \<^verbatim>\<open>type\<close> (here \<open>kind\<close>);
  \<open>detail\<close> stands for everything else the payload carries.
\<close>

record entity =
  ident :: string
  kind :: int
  detail :: string

text \<open>
  \<open>TypeError\<close> is JavaScript's error for reading a property of \<^verbatim>\<open>undefined\<close> or
  iterating what is not iterable; \<open>CacheFailure\<close> is whatever a cache implementation
  throws from its own \<^verbatim>\<open>close()\<close>. \<open>IllTyped\<close> is no error of the program: it
  marks a call whose arguments are outside the payload types of this model (see
  \<open>call_handler\<close>).
\<close>

datatype error = TypeError | CacheFailure | IllTyped

text \<open>
  Modelled from the spec: the repository declares \<^verbatim>\<open>Cache<T>\<close> as an interface
  (cache.ts) and ships no implementation. The object below follows the contract of the
  interface: \<^verbatim>\<open>set\<close> overwrites, \<^verbatim>\<open>delete\<close> removes and is harmless on a missing
  key, \<^verbatim>\<open>get\<close> looks a key up, \<^verbatim>\<open>close\<close> releases the cache. \<open>closes\<close> counts
  the calls of \<^verbatim>\<open>close\<close>, and \<open>close_fails\<close> says whether this implementation's
  \<^verbatim>\<open>close\<close> throws.
\<close>

record cache_obj =
  entries :: "string \<rightharpoonup> entity"
  closes :: nat
  close_fails :: bool

text \<open>
  The function objects handed to \<^verbatim>\<open>client.on\<close>. \<^verbatim>\<open>this.userset\<close> is a plain
  property read: it yields the method of the class prototype, one function object per
  class method, shared by all instances and carrying no receiver.
\<close>

datatype handler =
    userset_fn | cacheset_fn | cachedel_fn
  | memberset_fn | memberchunk_fn | memberdel_fn
  | guildset_fn | guilddel_fn
  | roleset_fn | roledel_fn

text \<open>
  Modelled from the spec: the client is the Client of eris, an event emitter whose code is
  not part of this repository. The library uses its \<^verbatim>\<open>on\<close> and \<^verbatim>\<open>off\<close>, and the
  client calls the listeners when it emits. The spec (section 6) says that \<^verbatim>\<open>off\<close>
  needs the very function reference that was given to \<^verbatim>\<open>on\<close>; it does not say how many
  equal listeners one \<^verbatim>\<open>off\<close> removes. The emitters eris is built on differ there:
  that of Node's events module removes one occurrence, the most recently added;
  eventemitter3, which eris uses when it is installed, removes every occurrence.
  \<open>off_removes_all\<close> says which of the two the client is.
\<close>

record client_obj =
  listeners :: "string \<Rightarrow> handler list"
  off_removes_all :: bool

datatype cls = UserCacher | ChannelCacher | MemberCacher | GuildCacher | RoleCacher

text \<open>
  A cacher instance: its class and its fields. \<open>allowedtypes = None\<close> is the field
  being \<^verbatim>\<open>undefined\<close>.
\<close>

record cacher_obj =
  cls_of :: cls
  cache :: addr
  client :: addr
  allowedtypes :: "int list option"

record world =
  caches :: "addr \<Rightarrow> cache_obj"
  clients :: "addr \<Rightarrow> client_obj"
  cachers :: "addr \<Rightarrow> cacher_obj"
  fresh :: addr

text \<open>
  The receiver (\<^verbatim>\<open>this\<close>) of a handler call. A method called on a cacher
  (\<^verbatim>\<open>cacher.cacheset(ch)\<close>) runs with the cacher as receiver; a listener called by the
  emitter runs with the emitter, that is the client, as receiver.
\<close>

datatype receiver = ThisClient addr | ThisCacher addr

text \<open>
  The arguments of an event: one entity; a guild and an entity; a guild and a list of
  members.
\<close>

datatype args = Args1 entity | Args2 entity entity | ArgsChunk entity "entity list"

type_synonym outcome = "error option \<times> world"

section \<open>The cache contract\<close>

definition cache_get :: "addr \<Rightarrow> string \<Rightarrow> world \<Rightarrow> entity option" where
  "cache_get a k w = entries (caches w a) k"

definition cache_set :: "addr \<Rightarrow> string \<Rightarrow> entity \<Rightarrow> world \<Rightarrow> world" where
  "cache_set a k v w =
     w\<lparr>caches := (caches w)(a := (caches w a)\<lparr>entries := (entries (caches w a))(k \<mapsto> v)\<rparr>)\<rparr>"

definition cache_delete :: "addr \<Rightarrow> string \<Rightarrow> world \<Rightarrow> world" where
  "cache_delete a k w =
     w\<lparr>caches := (caches w)(a := (caches w a)\<lparr>entries := (entries (caches w a))(k := None)\<rparr>)\<rparr>"

definition cache_close :: "addr \<Rightarrow> world \<Rightarrow> outcome" where
  "cache_close a w =
     (if close_fails (caches w a) then Some CacheFailure else None,
      w\<lparr>caches := (caches w)(a := (caches w a)\<lparr>closes := Suc (closes (caches w a))\<rparr>)\<rparr>)"

section \<open>The event emitter\<close>

text \<open>
  Modelled from the spec: \<^verbatim>\<open>on\<close> appends the listener. \<^verbatim>\<open>off\<close> removes the
  listeners equal to the given function, and does nothing when there is none: the most
  recently added occurrence (\<open>remove_last\<close>) on a client whose emitter removes one,
  every occurrence (\<open>removeAll\<close>) on a client whose emitter removes all.
\<close>

definition remove_last :: "handler \<Rightarrow> handler list \<Rightarrow> handler list" where
  "remove_last h hs = rev (remove1 h (rev hs))"

definition client_on :: "addr \<Rightarrow> string \<Rightarrow> handler \<Rightarrow> world \<Rightarrow> world" where
  "client_on c name h w =
     w\<lparr>clients := (clients w)(c := (clients w c)
        \<lparr>listeners := (listeners (clients w c))(name := listeners (clients w c) name @ [h])\<rparr>)\<rparr>"

definition client_off :: "addr \<Rightarrow> string \<Rightarrow> handler \<Rightarrow> world \<Rightarrow> world" where
  "client_off c name h w =
     w\<lparr>clients := (clients w)(c := (clients w c)
        \<lparr>listeners := (listeners (clients w c))(name :=
           (if off_removes_all (clients w c) then removeAll h (listeners (clients w c) name)
            else remove_last h (listeners (clients w c) name)))\<rparr>)\<rparr>"

section \<open>Property reads on the receiver\<close>

text \<open>
  \<^verbatim>\<open>this.cache\<close> and \<^verbatim>\<open>this.allowedtypes\<close>. A cacher has both fields; the eris
  client has neither, so both reads give \<^verbatim>\<open>undefined\<close> there.
\<close>

fun this_cache :: "world \<Rightarrow> receiver \<Rightarrow> addr option" where
  "this_cache w (ThisCacher k) = Some (cache (cachers w k))"
| "this_cache w (ThisClient c) = None"

fun this_allowedtypes :: "world \<Rightarrow> receiver \<Rightarrow> int list option" where
  "this_allowedtypes w (ThisCacher k) = allowedtypes (cachers w k)"
| "this_allowedtypes w (ThisClient c) = None"

text \<open>\<^verbatim>\<open>this.cache.set(k, v)\<close> and \<^verbatim>\<open>this.cache.delete(k)\<close>.\<close>

definition this_cache_set :: "receiver \<Rightarrow> string \<Rightarrow> entity \<Rightarrow> world \<Rightarrow> outcome" where
  "this_cache_set this k v w =
     (case this_cache w this of
        None \<Rightarrow> (Some TypeError, w)
      | Some a \<Rightarrow> (None, cache_set a k v w))"

definition this_cache_delete :: "receiver \<Rightarrow> string \<Rightarrow> world \<Rightarrow> outcome" where
  "this_cache_delete this k w =
     (case this_cache w this of
        None \<Rightarrow> (Some TypeError, w)
      | Some a \<Rightarrow> (None, cache_delete a k w))"

section \<open>The handlers\<close>

subsection \<open>UserCacher\<close>

definition userset :: "receiver \<Rightarrow> entity \<Rightarrow> world \<Rightarrow> outcome" where
  "userset this user w = this_cache_set this (ident user) user w"

subsection \<open>ChannelCacher\<close>

text \<open>
  The guard \<^verbatim>\<open>!this.allowedtypes || this.allowedtypes.indexOf(channel.type) !== -1\<close>:
  \<^verbatim>\<open>undefined\<close> is falsy, every array (the empty one too) is truthy.
\<close>

definition allowed :: "world \<Rightarrow> receiver \<Rightarrow> entity \<Rightarrow> bool" where
  "allowed w this channel =
     (case this_allowedtypes w this of
        None \<Rightarrow> True
      | Some ts \<Rightarrow> kind channel \<in> set ts)"

definition cacheset :: "receiver \<Rightarrow> entity \<Rightarrow> world \<Rightarrow> outcome" where
  "cacheset this channel w =
     (if allowed w this channel then this_cache_set this (ident channel) channel w
      else (None, w))"

definition cachedel :: "receiver \<Rightarrow> entity \<Rightarrow> world \<Rightarrow> outcome" where
  "cachedel this channel w =
     (if allowed w this channel then this_cache_delete this (ident channel) w
      else (None, w))"

subsection \<open>MemberCacher\<close>

text \<open>The template literal \<^verbatim>\<open>`${guild.id}:${member.id}`\<close>.\<close>

definition member_key :: "entity \<Rightarrow> entity \<Rightarrow> string" where
  "member_key guild member = ident guild @ '':'' @ ident member"

definition memberset :: "receiver \<Rightarrow> entity \<Rightarrow> entity \<Rightarrow> world \<Rightarrow> outcome" where
  "memberset this guild member w = this_cache_set this (member_key guild member) member w"

text \<open>The \<^verbatim>\<open>for ... of\<close> loop; a throwing iteration ends it.\<close>

fun memberchunk :: "receiver \<Rightarrow> entity \<Rightarrow> entity list \<Rightarrow> world \<Rightarrow> outcome" where
  "memberchunk this guild [] w = (None, w)"
| "memberchunk this guild (member # members) w =
     (case this_cache_set this (member_key guild member) member w of
        (Some e, w') \<Rightarrow> (Some e, w')
      | (None, w') \<Rightarrow> memberchunk this guild members w')"

definition memberdel :: "receiver \<Rightarrow> entity \<Rightarrow> entity \<Rightarrow> world \<Rightarrow> outcome" where
  "memberdel this guild member w = this_cache_delete this (member_key guild member) w"

subsection \<open>GuildCacher\<close>

definition guildset :: "receiver \<Rightarrow> entity \<Rightarrow> world \<Rightarrow> outcome" where
  "guildset this guild w = this_cache_set this (ident guild) guild w"

definition guilddel :: "receiver \<Rightarrow> entity \<Rightarrow> world \<Rightarrow> outcome" where
  "guilddel this guild w = this_cache_delete this (ident guild) w"

subsection \<open>RoleCacher\<close>

definition roleset :: "receiver \<Rightarrow> entity \<Rightarrow> entity \<Rightarrow> world \<Rightarrow> outcome" where
  "roleset this g role w = this_cache_set this (ident role) role w"

definition roledel :: "receiver \<Rightarrow> entity \<Rightarrow> entity \<Rightarrow> world \<Rightarrow> outcome" where
  "roledel this g role w = this_cache_delete this (ident role) w"

section \<open>Calling a handler, emitting an event\<close>

text \<open>
  \<^verbatim>\<open>handler.apply(this, args)\<close>. One-parameter handlers take the first argument and
  ignore the rest. The other clauses are calls with arguments the handler's signature does
  not declare, which the client never makes for the handler's events:
  \<^item> \<^verbatim>\<open>memberchunk\<close> without a list: \<^verbatim>\<open>undefined\<close> and an entity are not iterable,
    the loop throws;
  \<^item> a two-parameter handler without its second argument: reading the \<^verbatim>\<open>id\<close> of
    \<^verbatim>\<open>undefined\<close> throws (as a listener of the client the handler has failed at
    \<^verbatim>\<open>this.cache\<close> before);
  \<^item> a two-parameter handler given a list as second argument: as a listener of the client
    it fails at \<^verbatim>\<open>this.cache\<close>; on the instance JavaScript goes on, with the list in
    the place of the entity and \<^verbatim>\<open>undefined\<close> as its id. A cache of this model holds
    entities only, so that call is outside the model and marked \<open>IllTyped\<close>.
\<close>

fun arg0 :: "args \<Rightarrow> entity" where
  "arg0 (Args1 e) = e"
| "arg0 (Args2 e x) = e"
| "arg0 (ArgsChunk e xs) = e"

fun call_handler :: "handler \<Rightarrow> receiver \<Rightarrow> args \<Rightarrow> world \<Rightarrow> outcome" where
  "call_handler userset_fn this a w = userset this (arg0 a) w"
| "call_handler cacheset_fn this a w = cacheset this (arg0 a) w"
| "call_handler cachedel_fn this a w = cachedel this (arg0 a) w"
| "call_handler guildset_fn this a w = guildset this (arg0 a) w"
| "call_handler guilddel_fn this a w = guilddel this (arg0 a) w"
| "call_handler memberset_fn this (Args2 g m) w = memberset this g m w"
| "call_handler memberdel_fn this (Args2 g m) w = memberdel this g m w"
| "call_handler roleset_fn this (Args2 g r) w = roleset this g r w"
| "call_handler roledel_fn this (Args2 g r) w = roledel this g r w"
| "call_handler memberchunk_fn this (ArgsChunk g ms) w = memberchunk this g ms w"
| "call_handler memberchunk_fn this a w = (Some TypeError, w)"
| "call_handler h this (Args1 g) w = (Some TypeError, w)"
| "call_handler h (ThisClient c) (ArgsChunk g ms) w = (Some TypeError, w)"
| "call_handler h (ThisCacher k) (ArgsChunk g ms) w = (Some IllTyped, w)"

text \<open>
  Modelled from the spec: \<^verbatim>\<open>emit\<close> calls the listeners of the event in the order of
  their registration, each with the emitter as receiver (an emitter is handed the
  function alone and knows no other receiver); a listener that throws ends the emission
  and the error reaches the caller of \<^verbatim>\<open>emit\<close>.
\<close>

fun run_listeners :: "handler list \<Rightarrow> receiver \<Rightarrow> args \<Rightarrow> world \<Rightarrow> outcome" where
  "run_listeners [] this a w = (None, w)"
| "run_listeners (h # hs) this a w =
     (case call_handler h this a w of
        (Some e, w') \<Rightarrow> (Some e, w')
      | (None, w') \<Rightarrow> run_listeners hs this a w')"

definition emit :: "addr \<Rightarrow> string \<Rightarrow> args \<Rightarrow> world \<Rightarrow> outcome" where
  "emit c name a w = run_listeners (listeners (clients w c) name) (ThisClient c) a w"

section \<open>The cacher classes\<close>

text \<open>In the methods below \<open>k\<close> is the address of the instance (\<^verbatim>\<open>this\<close>).\<close>

definition SimpleCacher_close :: "addr \<Rightarrow> world \<Rightarrow> outcome" where
  "SimpleCacher_close k w = cache_close (cache (cachers w k)) w"

definition alloc :: "cls \<Rightarrow> addr \<Rightarrow> addr \<Rightarrow> int list option \<Rightarrow> world \<Rightarrow> world" where
  "alloc cl c e f w =
     w\<lparr>cachers := (cachers w)(fresh w :=
          \<lparr>cls_of = cl, cache = c, client = e, allowedtypes = f\<rparr>),
       fresh := Suc (fresh w)\<rparr>"

subsection \<open>UserCacher\<close>

definition UserCacher_setupEvents :: "addr \<Rightarrow> world \<Rightarrow> world" where
  "UserCacher_setupEvents k w = client_on (client (cachers w k)) ''userUpdate'' userset_fn w"

definition new_UserCacher :: "addr \<Rightarrow> addr \<Rightarrow> world \<Rightarrow> addr \<times> world" where
  "new_UserCacher c e w =
     (fresh w, UserCacher_setupEvents (fresh w) (alloc UserCacher c e None w))"

definition UserCacher_close :: "addr \<Rightarrow> world \<Rightarrow> outcome" where
  "UserCacher_close k w =
     SimpleCacher_close k (client_off (client (cachers w k)) ''userUpdate'' userset_fn w)"

subsection \<open>ChannelCacher\<close>

definition ChannelCacher_setupEvents :: "addr \<Rightarrow> world \<Rightarrow> world" where
  "ChannelCacher_setupEvents k w =
     (let w1 = client_on (client (cachers w k)) ''channelCreate'' cacheset_fn w;
          w2 = client_on (client (cachers w1 k)) ''channelUpdate'' cacheset_fn w1
      in client_on (client (cachers w2 k)) ''channelDelete'' cachedel_fn w2)"

definition new_ChannelCacher :: "addr \<Rightarrow> addr \<Rightarrow> int list option \<Rightarrow> world \<Rightarrow> addr \<times> world" where
  "new_ChannelCacher c e f w =
     (fresh w, ChannelCacher_setupEvents (fresh w) (alloc ChannelCacher c e f w))"

definition ChannelCacher_close :: "addr \<Rightarrow> world \<Rightarrow> outcome" where
  "ChannelCacher_close k w =
     (let w1 = client_off (client (cachers w k)) ''channelCreate'' cacheset_fn w;
          w2 = client_off (client (cachers w1 k)) ''channelUpdate'' cacheset_fn w1;
          w3 = client_off (client (cachers w2 k)) ''channelDelete'' cachedel_fn w2
      in SimpleCacher_close k w3)"

subsection \<open>MemberCacher\<close>

definition MemberCacher_setupEvents :: "addr \<Rightarrow> world \<Rightarrow> world" where
  "MemberCacher_setupEvents k w =
     (let w1 = client_on (client (cachers w k)) ''guildMemberAdd'' memberset_fn w;
          w2 = client_on (client (cachers w1 k)) ''guildMemberUpdate'' memberset_fn w1;
          w3 = client_on (client (cachers w2 k)) ''guildMemberChunk'' memberchunk_fn w2
      in client_on (client (cachers w3 k)) ''guildMemberRemove'' memberdel_fn w3)"

definition new_MemberCacher :: "addr \<Rightarrow> addr \<Rightarrow> world \<Rightarrow> addr \<times> world" where
  "new_MemberCacher c e w =
     (fresh w, MemberCacher_setupEvents (fresh w) (alloc MemberCacher c e None w))"

definition MemberCacher_close :: "addr \<Rightarrow> world \<Rightarrow> outcome" where
  "MemberCacher_close k w =
     (let w1 = client_off (client (cachers w k)) ''guildMemberAdd'' memberset_fn w;
          w2 = client_off (client (cachers w1 k)) ''guildMemberUpdate'' memberset_fn w1;
          w3 = client_off (client (cachers w2 k)) ''guildMemberChunk'' memberchunk_fn w2;
          w4 = client_off (client (cachers w3 k)) ''guildMemberRemove'' memberdel_fn w3
      in SimpleCacher_close k w4)"

subsection \<open>GuildCacher\<close>

definition GuildCacher_setupEvents :: "addr \<Rightarrow> world \<Rightarrow> world" where
  "GuildCacher_setupEvents k w =
     (let w1 = client_on (client (cachers w k)) ''guildCreate'' guildset_fn w;
          w2 = client_on (client (cachers w1 k)) ''guildUpdate'' guildset_fn w1
      in client_on (client (cachers w2 k)) ''guildDelete'' guilddel_fn w2)"

definition new_GuildCacher :: "addr \<Rightarrow> addr \<Rightarrow> world \<Rightarrow> addr \<times> world" where
  "new_GuildCacher c e w =
     (fresh w, GuildCacher_setupEvents (fresh w) (alloc GuildCacher c e None w))"

definition GuildCacher_close :: "addr \<Rightarrow> world \<Rightarrow> outcome" where
  "GuildCacher_close k w =
     (let w1 = client_off (client (cachers w k)) ''guildCreate'' guildset_fn w;
          w2 = client_off (client (cachers w1 k)) ''guildUpdate'' guildset_fn w1;
          w3 = client_off (client (cachers w2 k)) ''guildDelete'' guilddel_fn w2
      in SimpleCacher_close k w3)"

subsection \<open>RoleCacher\<close>

definition RoleCacher_setupEvents :: "addr \<Rightarrow> world \<Rightarrow> world" where
  "RoleCacher_setupEvents k w =
     (let w1 = client_on (client (cachers w k)) ''guildRoleCreate'' roleset_fn w;
          w2 = client_on (client (cachers w1 k)) ''guildRoleUpdate'' roleset_fn w1
      in client_on (client (cachers w2 k)) ''guildRoleDelete'' roledel_fn w2)"

definition new_RoleCacher :: "addr \<Rightarrow> addr \<Rightarrow> world \<Rightarrow> addr \<times> world" where
  "new_RoleCacher c e w =
     (fresh w, RoleCacher_setupEvents (fresh w) (alloc RoleCacher c e None w))"

definition RoleCacher_close :: "addr \<Rightarrow> world \<Rightarrow> outcome" where
  "RoleCacher_close k w =
     (let w1 = client_off (client (cachers w k)) ''guildRoleCreate'' roleset_fn w;
          w2 = client_off (client (cachers w1 k)) ''guildRoleUpdate'' roleset_fn w1;
          w3 = client_off (client (cachers w2 k)) ''guildRoleDelete'' roledel_fn w2
      in SimpleCacher_close k w3)"

subsection \<open>Any class\<close>

text \<open>
  \<open>construct\<close> is \<^verbatim>\<open>new C(cache, client, allowedtypes)\<close> for a class \<open>C\<close> (only
  ChannelCacher takes the third argument); \<open>close\<close> is \<^verbatim>\<open>cacher.close()\<close>, resolved
  by the class of the instance.
\<close>

fun construct :: "cls \<Rightarrow> addr \<Rightarrow> addr \<Rightarrow> int list option \<Rightarrow> world \<Rightarrow> addr \<times> world" where
  "construct UserCacher c e f w = new_UserCacher c e w"
| "construct ChannelCacher c e f w = new_ChannelCacher c e f w"
| "construct MemberCacher c e f w = new_MemberCacher c e w"
| "construct GuildCacher c e f w = new_GuildCacher c e w"
| "construct RoleCacher c e f w = new_RoleCacher c e w"

definition close :: "addr \<Rightarrow> world \<Rightarrow> outcome" where
  "close k w =
     (case cls_of (cachers w k) of
        UserCacher \<Rightarrow> UserCacher_close k w
      | ChannelCacher \<Rightarrow> ChannelCacher_close k w
      | MemberCacher \<Rightarrow> MemberCacher_close k w
      | GuildCacher \<Rightarrow> GuildCacher_close k w
      | RoleCacher \<Rightarrow> RoleCacher_close k w)"

section \<open>Registrations\<close>

text \<open>
  The (event name, function) pairs of each class, in the order its \<^verbatim>\<open>setupEvents\<close>
  passes them to \<^verbatim>\<open>on\<close>; \<open>attach\<close> and \<open>detach\<close> make the \<^verbatim>\<open>on\<close> and
  \<^verbatim>\<open>off\<close> calls for a list of pairs, in order.
\<close>

fun registrations :: "cls \<Rightarrow> (string \<times> handler) list" where
  "registrations UserCacher = [(''userUpdate'', userset_fn)]"
| "registrations ChannelCacher =
     [(''channelCreate'', cacheset_fn), (''channelUpdate'', cacheset_fn),
      (''channelDelete'', cachedel_fn)]"
| "registrations MemberCacher =
     [(''guildMemberAdd'', memberset_fn), (''guildMemberUpdate'', memberset_fn),
      (''guildMemberChunk'', memberchunk_fn), (''guildMemberRemove'', memberdel_fn)]"
| "registrations GuildCacher =
     [(''guildCreate'', guildset_fn), (''guildUpdate'', guildset_fn),
      (''guildDelete'', guilddel_fn)]"
| "registrations RoleCacher =
     [(''guildRoleCreate'', roleset_fn), (''guildRoleUpdate'', roleset_fn),
      (''guildRoleDelete'', roledel_fn)]"

fun attach :: "addr \<Rightarrow> (string \<times> handler) list \<Rightarrow> world \<Rightarrow> world" where
  "attach e [] w = w"
| "attach e ((n, h) # rs) w = attach e rs (client_on e n h w)"

fun detach :: "addr \<Rightarrow> (string \<times> handler) list \<Rightarrow> world \<Rightarrow> world" where
  "detach e [] w = w"
| "detach e ((n, h) # rs) w = detach e rs (client_off e n h w)"

text \<open>The value the constructor of a class stores in \<^verbatim>\<open>allowedtypes\<close>.\<close>

definition filter_arg :: "cls \<Rightarrow> int list option \<Rightarrow> int list option" where
  "filter_arg cl f = (case cl of ChannelCacher \<Rightarrow> f | _ \<Rightarrow> None)"

section \<open>Lifetimes\<close>

text \<open>
  What can happen to a world: the client emits an event, the application calls a handler
  method on a cacher, closes a cacher, or constructs another one. \<open>run\<close> performs a
  sequence of such steps, errors being left to the caller.
\<close>

datatype op =
    Emit addr string args
  | Invoke handler addr args
  | Close addr
  | New cls addr addr "int list option"

fun exec :: "op \<Rightarrow> world \<Rightarrow> world" where
  "exec (Emit e n a) w = snd (emit e n a w)"
| "exec (Invoke h k a) w = snd (call_handler h (ThisCacher k) a w)"
| "exec (Close k) w = snd (close k w)"
| "exec (New cl c e f) w = snd (construct cl c e f w)"

fun run :: "op list \<Rightarrow> world \<Rightarrow> world" where
  "run [] w = w"
| "run (x # xs) w = run xs (exec x w)"

section \<open>Sample objects\<close>

definition empty_cache :: cache_obj where
  "empty_cache = \<lparr>entries = Map.empty, closes = 0, close_fails = False\<rparr>"

text \<open>
  Empty caches whose \<^verbatim>\<open>close\<close> succeeds, clients without listeners whose \<^verbatim>\<open>off\<close>
  removes one occurrence, no cacher constructed yet.
\<close>

definition world0 :: world where
  "world0 =
     \<lparr>caches = (\<lambda>a. empty_cache),
      clients = (\<lambda>e. \<lparr>listeners = (\<lambda>n. []), off_removes_all = False\<rparr>),
      cachers = (\<lambda>k. \<lparr>cls_of = UserCacher, cache = 0, client = 0, allowedtypes = None\<rparr>),
      fresh = 0\<rparr>"

text \<open>The same, but the \<^verbatim>\<open>close\<close> of cache 0 throws.\<close>

definition failing0 :: world where
  "failing0 = world0\<lparr>caches := (caches world0)(0 := empty_cache\<lparr>close_fails := True\<rparr>)\<rparr>"

text \<open>The same as \<open>world0\<close>, but the \<^verbatim>\<open>off\<close> of client 0 removes every occurrence.\<close>

definition removing0 :: world where
  "removing0 =
     world0\<lparr>clients := (clients world0)(0 := \<lparr>listeners = (\<lambda>n. []), off_removes_all = True\<rparr>)\<rparr>"

definition alice :: entity where
  "alice = \<lparr>ident = ''user1'', kind = 0, detail = ''alice''\<rparr>"

definition text_channel :: entity where
  "text_channel = \<lparr>ident = ''chan1'', kind = 0, detail = ''general''\<rparr>"

definition voice_channel :: entity where
  "voice_channel = \<lparr>ident = ''chan2'', kind = 1, detail = ''lounge''\<rparr>"

definition guild123 :: entity where
  "guild123 = \<lparr>ident = ''guild123'', kind = 0, detail = ''a guild''\<rparr>"

definition member456 :: entity where
  "member456 = \<lparr>ident = ''member456'', kind = 0, detail = ''a member''\<rparr>"

definition member789 :: entity where
  "member789 = \<lparr>ident = ''member789'', kind = 0, detail = ''another member''\<rparr>"

definition role1 :: entity where
  "role1 = \<lparr>ident = ''role1'', kind = 0, detail = ''admin''\<rparr>"

section \<open>Basic facts\<close>

lemmas handler_defs =
  userset_def cacheset_def cachedel_def memberset_def memberdel_def guildset_def guilddel_def
  roleset_def roledel_def allowed_def member_key_def this_cache_set_def this_cache_delete_def

lemmas class_defs =
  new_UserCacher_def new_ChannelCacher_def new_MemberCacher_def new_GuildCacher_def
  new_RoleCacher_def UserCacher_setupEvents_def ChannelCacher_setupEvents_def
  MemberCacher_setupEvents_def GuildCacher_setupEvents_def RoleCacher_setupEvents_def
  close_def UserCacher_close_def ChannelCacher_close_def MemberCacher_close_def
  GuildCacher_close_def RoleCacher_close_def SimpleCacher_close_def alloc_def

lemmas store_defs =
  cache_get_def cache_set_def cache_delete_def cache_close_def client_on_def client_off_def
  remove_last_def emit_def

lemmas sample_defs =
  world0_def failing0_def removing0_def empty_cache_def alice_def text_channel_def voice_channel_def
  guild123_def member456_def member789_def role1_def


lemma remove_last_snoc: "remove_last h (hs @ [h]) = hs"
  by (simp add: remove_last_def)

lemma client_on_frame:
  "caches (client_on c n h w) = caches w"
  "cachers (client_on c n h w) = cachers w"
  "fresh (client_on c n h w) = fresh w"
  by (simp_all add: client_on_def)

lemma client_off_frame:
  "caches (client_off c n h w) = caches w"
  "cachers (client_off c n h w) = cachers w"
  "fresh (client_off c n h w) = fresh w"
  by (simp_all add: client_off_def)

lemma cache_set_frame:
  "clients (cache_set a k v w) = clients w"
  "cachers (cache_set a k v w) = cachers w"
  "fresh (cache_set a k v w) = fresh w"
  by (simp_all add: cache_set_def)

lemma cache_delete_frame:
  "clients (cache_delete a k w) = clients w"
  "cachers (cache_delete a k w) = cachers w"
  "fresh (cache_delete a k w) = fresh w"
  by (simp_all add: cache_delete_def)

lemma cache_close_frame:
  "clients (snd (cache_close a w)) = clients w"
  "cachers (snd (cache_close a w)) = cachers w"
  "fresh (snd (cache_close a w)) = fresh w"
  by (simp_all add: cache_close_def)

lemma alloc_frame:
  "caches (alloc cl c e f w) = caches w"
  "clients (alloc cl c e f w) = clients w"
  "fresh (alloc cl c e f w) = Suc (fresh w)"
  "cachers (alloc cl c e f w) (fresh w) = \<lparr>cls_of = cl, cache = c, client = e, allowedtypes = f\<rparr>"
  by (simp_all add: alloc_def)

lemma client_on_policy:
  "off_removes_all (clients (client_on e n h w) e') = off_removes_all (clients w e')"
  by (simp add: client_on_def)

lemma client_off_policy:
  "off_removes_all (clients (client_off e n h w) e') = off_removes_all (clients w e')"
  by (simp add: client_off_def)

lemma off_on:
  "\<not> off_removes_all (clients w e) \<Longrightarrow> client_off e n h (client_on e n h w) = w"
  by (simp add: client_off_def client_on_def remove_last_snoc)

lemma on_clients_commute_off:
  "n \<noteq> m \<Longrightarrow> client_off e n h (client_on e m g w) = client_on e m g (client_off e n h w)"
  by (simp add: client_off_def client_on_def fun_upd_twist)

lemma memberchunk_client: "snd (memberchunk (ThisClient c) g ms w) = w"
  by (cases ms) (simp_all add: this_cache_set_def)

lemma call_handler_client: "snd (call_handler h (ThisClient c) a w) = w"
  by (cases h; cases a)
     (simp_all add: userset_def cacheset_def cachedel_def guildset_def guilddel_def
        memberset_def memberdel_def roleset_def roledel_def this_cache_set_def
        this_cache_delete_def memberchunk_client)

lemma run_listeners_client: "snd (run_listeners hs (ThisClient c) a w) = w"
proof (induction hs)
  case Nil
  show ?case by simp
next
  case (Cons h hs)
  obtain r w' where eq: "call_handler h (ThisClient c) a w = (r, w')" by (cases "call_handler h (ThisClient c) a w")
  with call_handler_client [of h c a w] have "w' = w" by simp
  with eq Cons show ?case by (cases r) simp_all
qed

lemma emit_world: "snd (emit c n a w) = w"
  by (simp add: emit_def run_listeners_client)

lemma construct_attach:
  "construct cl c e f w =
     (fresh w, attach e (registrations cl) (alloc cl c e (filter_arg cl f) w))"
  by (cases cl)
     (simp_all add: new_UserCacher_def new_ChannelCacher_def new_MemberCacher_def
        new_GuildCacher_def new_RoleCacher_def UserCacher_setupEvents_def
        ChannelCacher_setupEvents_def MemberCacher_setupEvents_def
        GuildCacher_setupEvents_def RoleCacher_setupEvents_def filter_arg_def
        client_on_frame alloc_frame Let_def)

lemma close_detach:
  "close k w =
     SimpleCacher_close k (detach (client (cachers w k)) (registrations (cls_of (cachers w k))) w)"
  by (cases "cls_of (cachers w k)")
     (simp_all add: close_def UserCacher_close_def ChannelCacher_close_def
        MemberCacher_close_def GuildCacher_close_def RoleCacher_close_def
        client_off_frame Let_def)

lemma detach_attach:
  "\<not> off_removes_all (clients w e) \<Longrightarrow>
   detach e (registrations cl) (attach e (registrations cl) w) = w"
  by (cases cl) (simp_all add: off_on on_clients_commute_off)

text \<open>
  Whatever \<^verbatim>\<open>off\<close> removes: an event without listeners before the \<^verbatim>\<open>on\<close> calls of
  a class has none after the \<^verbatim>\<open>off\<close> calls for the same registrations.
\<close>

lemma listeners_on:
  "listeners (clients (client_on e m h w) e) n =
     (if n = m then listeners (clients w e) n @ [h] else listeners (clients w e) n)"
  by (simp add: client_on_def)

lemma listeners_off_all:
  "off_removes_all (clients w e) \<Longrightarrow>
   listeners (clients (client_off e m h w) e) n =
     (if n = m then removeAll h (listeners (clients w e) n) else listeners (clients w e) n)"
  by (simp add: client_off_def)

lemma listeners_attach:
  "listeners (clients (attach e rs w) e) n =
     listeners (clients w e) n @ map snd (filter (\<lambda>r. fst r = n) rs)"
  by (induction e rs w rule: attach.induct) (simp_all add: listeners_on)

lemma attach_policy:
  "off_removes_all (clients (attach e rs w) e') = off_removes_all (clients w e')"
  by (induction e rs w rule: attach.induct) (simp_all add: client_on_policy)

lemma listeners_detach_all:
  "off_removes_all (clients w e) \<Longrightarrow>
   listeners (clients (detach e rs w) e) n =
     filter (\<lambda>h. (n, h) \<notin> set rs) (listeners (clients w e) n)"
proof (induction e rs w rule: detach.induct)
  case (1 e w)
  then show ?case by simp
next
  case (2 e m h rs w)
  from "2.prems" have "off_removes_all (clients (client_off e m h w) e)"
    by (simp add: client_off_policy)
  from "2.IH" [OF this] "2.prems" show ?case
    by (auto simp: listeners_off_all removeAll_filter_not_eq intro: filter_cong)
qed

lemma detach_attach_empty:
  assumes "listeners (clients w e) n = []"
  shows "listeners (clients (detach e (registrations cl) (attach e (registrations cl) w)) e) n = []"
proof (cases "off_removes_all (clients w e)")
  case True
  then have "off_removes_all (clients (attach e (registrations cl) w) e)"
    by (simp add: attach_policy)
  from listeners_detach_all [OF this] assms show ?thesis
    by (auto simp: listeners_attach filter_empty_conv)
next
  case False
  from detach_attach [OF this, of cl] assms show ?thesis by simp
qed

lemma on_alloc: "client_on e n h (alloc cl c e' f w) = alloc cl c e' f (client_on e n h w)"
  by (simp add: client_on_def alloc_def)

lemma attach_alloc: "attach e rs (alloc cl c e' f w) = alloc cl c e' f (attach e rs w)"
  by (induction e rs w rule: attach.induct) (simp_all add: on_alloc)

lemma attach_frame:
  "caches (attach e rs w) = caches w"
  "cachers (attach e rs w) = cachers w"
  "fresh (attach e rs w) = fresh w"
  by (induction e rs w rule: attach.induct) (simp_all add: client_on_frame)

lemma detach_frame:
  "caches (detach e rs w) = caches w"
  "cachers (detach e rs w) = cachers w"
  "fresh (detach e rs w) = fresh w"
  by (induction e rs w rule: detach.induct) (simp_all add: client_off_frame)

lemma construct_close_clients:
  assumes "construct cl c e f w = (k, w1)" and "\<not> off_removes_all (clients w e)"
  shows "clients (snd (close k w1)) = clients w"
    and "close k w1 = cache_close c (w1\<lparr>clients := clients w\<rparr>)"
proof -
  from assms have k: "k = fresh w"
    and w1: "w1 = attach e (registrations cl) (alloc cl c e (filter_arg cl f) w)"
    by (simp_all add: construct_attach)
  have obj: "cachers w1 k = \<lparr>cls_of = cl, cache = c, client = e, allowedtypes = filter_arg cl f\<rparr>"
    by (simp add: w1 k attach_frame alloc_frame)
  from assms(2) have "\<not> off_removes_all (clients (alloc cl c e (filter_arg cl f) w) e)"
    by (simp add: alloc_frame)
  then have d: "detach e (registrations cl) w1 = alloc cl c e (filter_arg cl f) w"
    by (simp add: w1 detach_attach)
  have cl: "close k w1 = cache_close c (alloc cl c e (filter_arg cl f) w)"
    by (simp add: close_detach obj d SimpleCacher_close_def) (simp add: k alloc_frame)
  show "clients (snd (close k w1)) = clients w"
    by (simp add: cl cache_close_frame alloc_frame)
  have "w1\<lparr>clients := clients w\<rparr> = alloc cl c e (filter_arg cl f) w"
    by (simp add: w1 attach_alloc) (simp add: alloc_def attach_frame)
  with cl show "close k w1 = cache_close c (w1\<lparr>clients := clients w\<rparr>)" by simp
qed

lemma this_cache_set_frame:
  "clients (snd (this_cache_set this k v w)) = clients w"
  "cachers (snd (this_cache_set this k v w)) = cachers w"
  "fresh (snd (this_cache_set this k v w)) = fresh w"
  by (cases this; simp add: this_cache_set_def cache_set_frame)+

lemma this_cache_delete_frame:
  "clients (snd (this_cache_delete this k w)) = clients w"
  "cachers (snd (this_cache_delete this k w)) = cachers w"
  "fresh (snd (this_cache_delete this k w)) = fresh w"
  by (cases this; simp add: this_cache_delete_def cache_delete_frame)+

lemma memberchunk_frame:
  "clients (snd (memberchunk this g ms w)) = clients w \<and>
   cachers (snd (memberchunk this g ms w)) = cachers w \<and>
   fresh (snd (memberchunk this g ms w)) = fresh w"
proof (induction ms arbitrary: w)
  case Nil
  show ?case by simp
next
  case (Cons m ms)
  obtain r w' where eq: "this_cache_set this (member_key g m) m w = (r, w')"
    by (cases "this_cache_set this (member_key g m) m w")
  from this_cache_set_frame [of this "member_key g m" m w] eq
  have fr: "clients w' = clients w" "cachers w' = cachers w" "fresh w' = fresh w"
    by simp_all
  show ?case
  proof (cases r)
    case None
    with eq Cons [of w'] fr show ?thesis by simp
  next
    case (Some err)
    with eq fr show ?thesis by simp
  qed
qed

lemma call_handler_frame:
  "clients (snd (call_handler h this a w)) = clients w \<and>
   cachers (snd (call_handler h this a w)) = cachers w \<and>
   fresh (snd (call_handler h this a w)) = fresh w"
  by (cases h; cases a; cases this)
     (simp_all add: userset_def cacheset_def cachedel_def guildset_def guilddel_def
        memberset_def memberdel_def roleset_def roledel_def
        this_cache_set_frame this_cache_delete_frame memberchunk_frame)

lemma close_frame:
  "cachers (snd (close k w)) = cachers w"
  "fresh (snd (close k w)) = fresh w"
  by (simp_all add: close_detach SimpleCacher_close_def cache_close_frame detach_frame)

lemma construct_frame:
  "fst (construct cl c e f w) = fresh w"
  "fresh (snd (construct cl c e f w)) = Suc (fresh w)"
  "caches (snd (construct cl c e f w)) = caches w"
  "cachers (snd (construct cl c e f w)) =
     (cachers w)(fresh w := \<lparr>cls_of = cl, cache = c, client = e, allowedtypes = filter_arg cl f\<rparr>)"
  by (simp_all add: construct_attach attach_frame alloc_frame) (simp add: alloc_def)

lemma exec_keeps:
  "k < fresh w \<Longrightarrow> cachers (exec x w) k = cachers w k \<and> fresh w \<le> fresh (exec x w)"
  by (cases x) (simp_all add: emit_world call_handler_frame close_frame construct_frame)

lemma run_keeps:
  "k < fresh w \<Longrightarrow> cachers (run xs w) k = cachers w k \<and> fresh w \<le> fresh (run xs w)"
proof (induction xs arbitrary: w)
  case Nil
  show ?case by simp
next
  case (Cons x xs)
  from exec_keeps [OF Cons.prems, of x]
  have a: "cachers (exec x w) k = cachers w k" and b: "fresh w \<le> fresh (exec x w)" by simp_all
  from Cons.prems b have "k < fresh (exec x w)" by simp
  from Cons.IH [OF this] a b show ?case by simp
qed

lemma constructed_object_kept:
  assumes "construct cl c e f w = (k, w1)"
  shows "cachers (run xs w1) k = \<lparr>cls_of = cl, cache = c, client = e, allowedtypes = filter_arg cl f\<rparr>"
proof -
  from assms construct_frame [of cl c e f w]
  have k: "k = fresh w" and fr: "fresh w1 = Suc (fresh w)"
    and obj: "cachers w1 k = \<lparr>cls_of = cl, cache = c, client = e, allowedtypes = filter_arg cl f\<rparr>"
    by simp_all
  from k fr have "k < fresh w1" by simp
  from run_keeps [OF this, of xs] obj show ?thesis by simp
qed

lemma detach_clients_cong:
  "clients x = clients y \<Longrightarrow> clients (detach e rs x) = clients (detach e rs y)"
proof (induction e rs x arbitrary: y rule: detach.induct)
  case (1 e w)
  then show ?case by simp
next
  case (2 e n h rs w)
  from "2.prems" have "clients (client_off e n h w) = clients (client_off e n h y)"
    by (simp add: client_off_def)
  from "2.IH" [OF this] show ?case by simp
qed

lemma close_of_object:
  assumes "cachers w k = \<lparr>cls_of = cl, cache = c, client = e, allowedtypes = f\<rparr>"
  shows "close k w = cache_close c (detach e (registrations cl) w)"
  by (simp add: close_detach assms SimpleCacher_close_def detach_frame)

lemma construct_clients:
  "clients (snd (construct cl c e f w)) = clients (attach e (registrations cl) w)"
  by (simp add: construct_attach attach_alloc alloc_frame)

text \<open>The cache contract: a stored value is found, a deleted one is not.\<close>

lemma cache_get_set: "cache_get a k (cache_set a k v w) = Some v"
  by (simp add: cache_get_def cache_set_def)

lemma cache_get_delete: "cache_get a k (cache_delete a k w) = None"
  by (simp add: cache_get_def cache_delete_def)

lemma cache_delete_absent:
  assumes "cache_get a k w = None"
  shows "cache_delete a k w = w"
proof -
  from assms have "(entries (caches w a))(k := None) = entries (caches w a)"
    by (simp add: cache_get_def fun_upd_idem)
  then show ?thesis
    by (simp add: cache_delete_def)
qed

section \<open>The handlers as methods of the instance\<close>

text \<open>
  Called with the cacher as receiver (\<^verbatim>\<open>cacher.cacheset(ch)\<close>), each handler does what
  its body says to the cacher's own cache and returns normally.
\<close>

lemma set_on_instance:
  "userset (ThisCacher k) x w = (None, cache_set (cache (cachers w k)) (ident x) x w)"
  "guildset (ThisCacher k) x w = (None, cache_set (cache (cachers w k)) (ident x) x w)"
  "roleset (ThisCacher k) g x w = (None, cache_set (cache (cachers w k)) (ident x) x w)"
  "memberset (ThisCacher k) g x w =
     (None, cache_set (cache (cachers w k)) (ident g @ '':'' @ ident x) x w)"
  by (simp_all add: handler_defs)

lemma delete_on_instance:
  "guilddel (ThisCacher k) x w = (None, cache_delete (cache (cachers w k)) (ident x) w)"
  "roledel (ThisCacher k) g x w = (None, cache_delete (cache (cachers w k)) (ident x) w)"
  "memberdel (ThisCacher k) g x w =
     (None, cache_delete (cache (cachers w k)) (ident g @ '':'' @ ident x) w)"
  by (simp_all add: handler_defs)

lemma channel_on_instance:
  "cacheset (ThisCacher k) ch w =
     (None, if allowed w (ThisCacher k) ch then cache_set (cache (cachers w k)) (ident ch) ch w else w)"
  "cachedel (ThisCacher k) ch w =
     (None, if allowed w (ThisCacher k) ch then cache_delete (cache (cachers w k)) (ident ch) w else w)"
  by (simp_all add: cacheset_def cachedel_def this_cache_set_def this_cache_delete_def)

lemma memberchunk_on_instance:
  "memberchunk (ThisCacher k) g ms w =
     (None, foldl (\<lambda>v m. cache_set (cache (cachers w k)) (member_key g m) m v) w ms)"
proof (induction ms arbitrary: w)
  case Nil
  show ?case by simp
next
  case (Cons m ms)
  have "cachers (cache_set (cache (cachers w k)) (member_key g m) m w) = cachers w"
    by (simp add: cache_set_frame)
  with Cons [of "cache_set (cache (cachers w k)) (member_key g m) m w"]
  show ?case by (simp add: this_cache_set_def)
qed

text \<open>
  A chunk leaves the other keys alone, and a chunk whose members have distinct ids leaves
  each of them under its composite key.
\<close>

lemma member_key_inj: "member_key g m = member_key g x \<longleftrightarrow> ident m = ident x"
  by (simp add: member_key_def)

lemma chunk_keeps_other_keys:
  "key \<notin> set (map (member_key g) ms) \<Longrightarrow>
   cache_get c key (foldl (\<lambda>v m. cache_set c (member_key g m) m v) w ms) = cache_get c key w"
  by (induction ms arbitrary: w) (auto simp: cache_get_def cache_set_def)

lemma chunk_stores_each_member:
  "distinct (map ident ms) \<Longrightarrow> m \<in> set ms \<Longrightarrow>
   cache_get c (member_key g m) (foldl (\<lambda>v m. cache_set c (member_key g m) m v) w ms) = Some m"
proof (induction ms arbitrary: w)
  case Nil
  then show ?case by simp
next
  case (Cons x xs)
  show ?case
  proof (cases "m = x")
    case True
    from Cons.prems(1) have "ident x \<notin> ident ` set xs" by simp
    then have "member_key g x \<notin> set (map (member_key g) xs)"
      by (auto simp: member_key_inj)
    from chunk_keeps_other_keys [OF this] True show ?thesis
      by (simp add: cache_get_set)
  next
    case False
    with Cons.prems have "distinct (map ident xs)" and "m \<in> set xs" by simp_all
    from Cons.IH [OF this] show ?thesis by simp
  qed
qed

section \<open>The handlers as listeners of the client\<close>

text \<open>
  \<^verbatim>\<open>setupEvents\<close> passes \<^verbatim>\<open>this.userset\<close> and its siblings to \<^verbatim>\<open>on\<close> as bare
  functions, and the emitter calls a listener with itself as receiver. There
  \<^verbatim>\<open>this.cache\<close> is \<^verbatim>\<open>undefined\<close>, so the first cache call of a handler throws, and
  \<^verbatim>\<open>this.allowedtypes\<close> is \<^verbatim>\<open>undefined\<close>, so the channel guard lets every type
  through to that call. No emission changes the world.
\<close>

lemma listener_throws:
  "fst (userset (ThisClient c) x w) = Some TypeError"
  "fst (cacheset (ThisClient c) x w) = Some TypeError"
  "fst (cachedel (ThisClient c) x w) = Some TypeError"
  "fst (guildset (ThisClient c) x w) = Some TypeError"
  "fst (guilddel (ThisClient c) x w) = Some TypeError"
  "fst (roleset (ThisClient c) g x w) = Some TypeError"
  "fst (roledel (ThisClient c) g x w) = Some TypeError"
  "fst (memberset (ThisClient c) g x w) = Some TypeError"
  "fst (memberdel (ThisClient c) g x w) = Some TypeError"
  "fst (memberchunk (ThisClient c) g (x # xs) w) = Some TypeError"
  by (simp_all add: handler_defs)

section \<open>Construction\<close>

text \<open>
  C10. Constructing a cacher of any class performs no cache operation: every cache of the
  world, the one handed to the constructor included, is after the construction exactly
  what it was before, and so is the result of every \<^verbatim>\<open>get\<close>. The new instance holds
  the cache and client references and, for a ChannelCacher, the filter argument.
\<close>

theorem constructor_performs_no_cache_operation:
  "caches (snd (construct cl c e f w)) = caches w
   \<and> cache_get a key (snd (construct cl c e f w)) = cache_get a key w
   \<and> cachers (snd (construct cl c e f w)) (fst (construct cl c e f w)) =
       \<lparr>cls_of = cl, cache = c, client = e, allowedtypes = filter_arg cl f\<rparr>"
  by (simp add: construct_frame cache_get_def del: construct.simps)

theorem constructor_performs_no_cache_operation_witness:
  "cache_get 0 ''chan1'' (snd (construct ChannelCacher 0 0 (Some [0]) (cache_set 0 ''chan1'' text_channel world0)))
     = Some text_channel
   \<and> caches (snd (construct ChannelCacher 0 0 (Some [0]) (cache_set 0 ''chan1'' text_channel world0)))
     = caches (cache_set 0 ''chan1'' text_channel world0)"
  using constructor_performs_no_cache_operation
    [of ChannelCacher 0 0 "Some [0]" "cache_set 0 ''chan1'' text_channel world0" 0 "''chan1''"]
  by (simp add: cache_get_def cache_set_def)

section \<open>Closing\<close>

text \<open>
  C7. For a cacher of any class, constructed on cache \<open>c\<close> and client \<open>e\<close> and closed
  at any later time, \<^verbatim>\<open>close()\<close> is the cache's \<^verbatim>\<open>close()\<close> run in the world in
  which the \<^verbatim>\<open>off\<close> calls for all registrations of the class have already been made.
  The listeners the call leaves behind are those after the \<^verbatim>\<open>off\<close> calls, also when
  the cache's \<^verbatim>\<open>close()\<close> throws and \<^verbatim>\<open>close()\<close> passes the error on. This holds
  whatever the emitter's \<^verbatim>\<open>off\<close> removes. On a client whose \<^verbatim>\<open>off\<close> removes one
  occurrence, a cacher closed right after its construction leaves the client's listeners
  as they were before it was constructed.
\<close>

theorem close_detaches_before_closing_cache:
  assumes "construct cl c e f w = (k, w1)"
  shows "close k (run xs w1) = cache_close c (detach e (registrations cl) (run xs w1))
   \<and> clients (snd (close k (run xs w1))) = clients (detach e (registrations cl) (run xs w1))
   \<and> fst (close k (run xs w1)) =
       (if close_fails (caches (run xs w1) c) then Some CacheFailure else None)
   \<and> (\<not> off_removes_all (clients w e) \<longrightarrow> clients (snd (close k w1)) = clients w)"
proof -
  have obj: "cachers (run xs w1) k =
      \<lparr>cls_of = cl, cache = c, client = e, allowedtypes = filter_arg cl f\<rparr>"
    using assms by (rule constructed_object_kept)
  have cl: "close k (run xs w1) = cache_close c (detach e (registrations cl) (run xs w1))"
    using obj by (rule close_of_object)
  have li: "clients (snd (close k (run xs w1))) = clients (detach e (registrations cl) (run xs w1))"
    by (simp add: cl cache_close_frame)
  have er: "fst (close k (run xs w1)) =
       (if close_fails (caches (run xs w1) c) then Some CacheFailure else None)"
    by (simp add: cl cache_close_def detach_frame)
  have "clients (snd (close k w1)) = clients w" if "\<not> off_removes_all (clients w e)"
    using assms that by (rule construct_close_clients)
  with cl li er show ?thesis by blast
qed

theorem close_detaches_before_closing_cache_witness:
  "fst (close (fst (construct RoleCacher 0 0 None failing0)) (snd (construct RoleCacher 0 0 None failing0)))
     = Some CacheFailure
   \<and> listeners (clients (snd (construct RoleCacher 0 0 None failing0)) 0) ''guildRoleDelete'' = [roledel_fn]
   \<and> listeners (clients (snd (close (fst (construct RoleCacher 0 0 None failing0))
        (snd (construct RoleCacher 0 0 None failing0)))) 0) ''guildRoleDelete'' = []"
proof -
  let ?k = "fst (construct RoleCacher 0 0 None failing0)"
  let ?w = "snd (construct RoleCacher 0 0 None failing0)"
  have c: "construct RoleCacher 0 0 None failing0 = (?k, ?w)"
    by (simp only: prod.collapse)
  note t = close_detaches_before_closing_cache [OF c, of "[]", unfolded run.simps]
  have f: "close_fails (caches ?w 0)"
    by (simp only: construct_frame) (simp add: failing0_def)
  from t have "fst (close ?k ?w) = (if close_fails (caches ?w 0) then Some CacheFailure else None)"
    by blast
  with f have a: "fst (close ?k ?w) = Some CacheFailure"
    by (simp only: if_True)
  have l: "listeners (clients ?w 0) ''guildRoleDelete'' = [roledel_fn]"
    by (simp add: class_defs store_defs sample_defs Let_def)
  have p: "\<not> off_removes_all (clients failing0 0)"
    by (simp add: sample_defs)
  from t p have "clients (snd (close ?k ?w)) = clients failing0"
    by blast
  then have z: "listeners (clients (snd (close ?k ?w)) 0) ''guildRoleDelete'' = []"
    by (simp add: sample_defs del: construct.simps)
  from a l z show ?thesis by blast
qed

text \<open>
  C3. A cacher of any class is constructed on cache \<open>c\<close> and client \<open>e\<close> and, at any
  later time, closed once. The call changes the caches in one way only: the \<^verbatim>\<open>close\<close>
  of \<open>c\<close> has been called exactly once more. The client's listeners are those left by
  the \<^verbatim>\<open>off\<close> calls for the registrations of the class, and emitting any event on the
  client afterwards changes no cache. When the cacher is closed right after its
  construction: on a client whose \<^verbatim>\<open>off\<close> removes one occurrence the listeners are
  those from before the construction; and, whatever \<^verbatim>\<open>off\<close> removes, where the
  client had no other listener for the event, the emission calls nothing and returns
  normally, leaving the world as it is.
\<close>

theorem closed_cacher_mutates_nothing:
  assumes "construct cl c e f w = (k, w1)" and "close k (run xs w1) = (r, w2)"
  shows "caches w2 =
      (caches (run xs w1))(c := (caches (run xs w1) c)\<lparr>closes := Suc (closes (caches (run xs w1) c))\<rparr>)
   \<and> clients w2 = clients (detach e (registrations cl) (run xs w1))
   \<and> caches (snd (emit e n a w2)) = caches w2
   \<and> (xs = [] \<and> \<not> off_removes_all (clients w e) \<longrightarrow> clients w2 = clients w)
   \<and> (xs = [] \<and> listeners (clients w e) n = [] \<longrightarrow> emit e n a w2 = (None, w2))"
proof -
  let ?rs = "registrations cl"
  from constructed_object_kept [OF assms(1), of xs]
  have "close k (run xs w1) = cache_close c (detach e ?rs (run xs w1))"
    by (rule close_of_object)
  with assms(2) have w2: "w2 = snd (cache_close c (detach e ?rs (run xs w1)))"
    by simp
  have ca: "caches w2 =
      (caches (run xs w1))(c := (caches (run xs w1) c)\<lparr>closes := Suc (closes (caches (run xs w1) c))\<rparr>)"
    by (simp add: w2 cache_close_def detach_frame)
  have cl: "clients w2 = clients (detach e ?rs (run xs w1))"
    by (simp add: w2 cache_close_frame)
  have em: "caches (snd (emit e n a w2)) = caches w2"
    by (simp add: emit_world)
  have re: "clients w2 = clients w" if "xs = []" and "\<not> off_removes_all (clients w e)"
  proof -
    from assms(2) that(1) have "w2 = snd (close k w1)" by simp
    with construct_close_clients(1) [OF assms(1) that(2)] show ?thesis by (simp only:)
  qed
  have "emit e n a w2 = (None, w2)" if "xs = []" and "listeners (clients w e) n = []"
  proof -
    from assms(1) have "w1 = alloc cl c e (filter_arg cl f) (attach e ?rs w)"
      by (simp add: construct_attach attach_alloc)
    then have "clients w1 = clients (attach e ?rs w)"
      by (simp add: alloc_frame)
    then have "clients (detach e ?rs w1) = clients (detach e ?rs (attach e ?rs w))"
      by (rule detach_clients_cong)
    with cl that(1) have "clients w2 = clients (detach e ?rs (attach e ?rs w))"
      by simp
    with detach_attach_empty [OF that(2), of cl] have "listeners (clients w2 e) n = []"
      by simp
    then show ?thesis by (simp add: emit_def)
  qed
  with ca cl em re show ?thesis by blast
qed

theorem closed_cacher_mutates_nothing_witness:
  "listeners (clients (snd (construct GuildCacher 0 0 None world0)) 0) ''guildCreate'' = [guildset_fn]
   \<and> emit 0 ''guildCreate'' (Args1 guild123)
        (snd (close (fst (construct GuildCacher 0 0 None world0)) (snd (construct GuildCacher 0 0 None world0))))
      = (None, snd (close (fst (construct GuildCacher 0 0 None world0)) (snd (construct GuildCacher 0 0 None world0))))
   \<and> closes (caches (snd (construct GuildCacher 0 0 None world0)) 0) = 0
   \<and> closes (caches (snd (close (fst (construct GuildCacher 0 0 None world0))
        (snd (construct GuildCacher 0 0 None world0)))) 0) = 1"
proof -
  let ?k = "fst (construct GuildCacher 0 0 None world0)"
  let ?w = "snd (construct GuildCacher 0 0 None world0)"
  let ?r = "fst (close ?k ?w)"
  let ?v = "snd (close ?k ?w)"
  have c: "construct GuildCacher 0 0 None world0 = (?k, ?w)"
    by (simp only: prod.collapse)
  have d: "close ?k (run [] ?w) = (?r, ?v)"
    by (simp only: prod.collapse run.simps)
  note t = closed_cacher_mutates_nothing [OF c d, of "''guildCreate''" "Args1 guild123", unfolded run.simps]
  have l: "listeners (clients ?w 0) ''guildCreate'' = [guildset_fn]"
    by (simp add: class_defs store_defs sample_defs Let_def)
  have z: "listeners (clients world0 0) ''guildCreate'' = []"
    by (simp add: sample_defs)
  from t z have a: "emit 0 ''guildCreate'' (Args1 guild123) ?v = (None, ?v)"
    by blast
  have n: "closes (caches ?w 0) = 0"
    by (simp only: construct_frame) (simp add: sample_defs)
  from t have "caches ?v = (caches ?w)(0 := (caches ?w 0)\<lparr>closes := Suc (closes (caches ?w 0))\<rparr>)"
    by blast
  with n have b: "closes (caches ?v 0) = 1"
    by (simp del: construct.simps)
  from l a n b show ?thesis by blast
qed

text \<open>
  C1. The claim is that closing one of two instances of a class that share a client never
  detaches a registration of the other. The code does not ensure this. Every instance
  of a class hands the same function object to \<^verbatim>\<open>on\<close> (the prototype's method, see
  \<open>handler\<close>), so the reference that \<^verbatim>\<open>close()\<close> gives to \<^verbatim>\<open>off\<close> is as much
  the sibling's as its own. Two UserCachers \<open>A\<close> and \<open>B\<close> are constructed on client 0,
  then \<open>A\<close> is closed.
  \<^item> On a client whose \<^verbatim>\<open>off\<close> removes every occurrence, no \<^verbatim>\<open>userUpdate\<close> listener
    is left, where \<open>B\<close> alone has one.
  \<^item> On a client whose \<^verbatim>\<open>off\<close> removes the most recent occurrence, with some other
    listener (here the function \<open>guildset_fn\<close>) registered on \<^verbatim>\<open>userUpdate\<close> between
    the two constructions, the entry that goes is the one behind that listener, which
    is \<open>B\<close>'s: the list left is not the one of \<open>B\<close> alone.
\<close>

theorem close_detaches_sibling_registration:
  "listeners (clients (snd (construct UserCacher 1 0 None
       (snd (construct UserCacher 0 0 None removing0)))) 0) ''userUpdate''
     = [userset_fn, userset_fn]
   \<and> listeners (clients (snd (construct UserCacher 1 0 None removing0)) 0) ''userUpdate''
     = [userset_fn]
   \<and> listeners (clients (snd (close (fst (construct UserCacher 0 0 None removing0))
       (snd (construct UserCacher 1 0 None
         (snd (construct UserCacher 0 0 None removing0)))))) 0) ''userUpdate''
     = []
   \<and> listeners (clients (snd (construct UserCacher 1 0 None
       (client_on 0 ''userUpdate'' guildset_fn
         (snd (construct UserCacher 0 0 None world0))))) 0) ''userUpdate''
     = [userset_fn, guildset_fn, userset_fn]
   \<and> listeners (clients (snd (construct UserCacher 1 0 None
       (client_on 0 ''userUpdate'' guildset_fn world0))) 0) ''userUpdate''
     = [guildset_fn, userset_fn]
   \<and> listeners (clients (snd (close (fst (construct UserCacher 0 0 None world0))
       (snd (construct UserCacher 1 0 None
         (client_on 0 ''userUpdate'' guildset_fn
           (snd (construct UserCacher 0 0 None world0))))))) 0) ''userUpdate''
     = [userset_fn, guildset_fn]"
  by (simp add: class_defs store_defs sample_defs)

section \<open>The channel filter\<close>

text \<open>
  On the instance the filter is the constructor's argument for as long as the library
  alone acts, and the guard follows it; the empty list lets nothing through. (The field
  is public and holds the caller's array itself, so the application can change it.)
\<close>

lemma allowedtypes_kept:
  assumes "construct ChannelCacher c e f w = (k, w1)"
  shows "allowedtypes (cachers (run xs w1) k) = f"
  using constructed_object_kept [OF assms, of xs] by (simp add: filter_arg_def)

lemma guard_on_instance:
  "allowed w (ThisCacher k) ch =
     (case allowedtypes (cachers w k) of None \<Rightarrow> True | Some ts \<Rightarrow> kind ch \<in> set ts)"
  by (simp add: allowed_def)

lemma empty_filter_on_instance:
  assumes "allowedtypes (cachers w k) = Some []"
  shows "cacheset (ThisCacher k) ch w = (None, w)" and "cachedel (ThisCacher k) ch w = (None, w)"
  using assms by (simp_all add: cacheset_def cachedel_def allowed_def)

text \<open>
  As a listener of the client the guard reads \<^verbatim>\<open>allowedtypes\<close> on the client and lets
  every channel through.
\<close>

lemma guard_on_client: "allowed w (ThisClient e) ch"
  by (simp add: allowed_def)

text \<open>
  C8. The claim is that the filter captured at construction decides every channel event
  and that an event of a type outside it is entirely ignored. The code does not do so. A
  ChannelCacher is constructed with filter \<open>[0]\<close> on a cache that holds a channel of
  type 1. The cacher's \<^verbatim>\<open>allowedtypes\<close> is \<open>[0]\<close> and the guard on the cacher
  rejects the channel, but the guard as the listener evaluates it lets the channel
  through, and the emitted \<^verbatim>\<open>channelCreate\<close> and \<^verbatim>\<open>channelDelete\<close> of that channel
  end in a \<open>TypeError\<close> instead of being ignored.
\<close>

theorem emitted_event_bypasses_captured_filter:
  "allowedtypes (cachers
       (snd (construct ChannelCacher 0 0 (Some [0]) (cache_set 0 ''chan2'' voice_channel world0)))
       (fst (construct ChannelCacher 0 0 (Some [0]) (cache_set 0 ''chan2'' voice_channel world0))))
     = Some [0]
   \<and> \<not> allowed
       (snd (construct ChannelCacher 0 0 (Some [0]) (cache_set 0 ''chan2'' voice_channel world0)))
       (ThisCacher (fst (construct ChannelCacher 0 0 (Some [0]) (cache_set 0 ''chan2'' voice_channel world0))))
       voice_channel
   \<and> allowed
       (snd (construct ChannelCacher 0 0 (Some [0]) (cache_set 0 ''chan2'' voice_channel world0)))
       (ThisClient 0) voice_channel
   \<and> fst (emit 0 ''channelCreate'' (Args1 voice_channel)
       (snd (construct ChannelCacher 0 0 (Some [0]) (cache_set 0 ''chan2'' voice_channel world0))))
     = Some TypeError
   \<and> fst (emit 0 ''channelDelete'' (Args1 voice_channel)
       (snd (construct ChannelCacher 0 0 (Some [0]) (cache_set 0 ''chan2'' voice_channel world0))))
     = Some TypeError"
  by (simp add: handler_defs class_defs store_defs sample_defs Let_def)

text \<open>
  C9. The claim is that a ChannelCacher constructed with the empty list as filter ignores
  every channel event. The code does not do so. With filter \<open>[]\<close> on an empty cache,
  the cacher's \<^verbatim>\<open>allowedtypes\<close> is the empty list, but the guard as the listener
  evaluates it lets the channel through, and the emitted \<^verbatim>\<open>channelCreate\<close>,
  \<^verbatim>\<open>channelUpdate\<close> and \<^verbatim>\<open>channelDelete\<close> each end in a \<open>TypeError\<close> instead of
  being ignored.
\<close>

theorem emitted_event_passes_empty_filter:
  "allowedtypes (cachers (snd (construct ChannelCacher 0 0 (Some []) world0))
       (fst (construct ChannelCacher 0 0 (Some []) world0)))
     = Some []
   \<and> allowed (snd (construct ChannelCacher 0 0 (Some []) world0)) (ThisClient 0) text_channel
   \<and> fst (emit 0 ''channelCreate'' (Args1 text_channel)
       (snd (construct ChannelCacher 0 0 (Some []) world0)))
     = Some TypeError
   \<and> fst (emit 0 ''channelUpdate'' (Args1 text_channel)
       (snd (construct ChannelCacher 0 0 (Some []) world0)))
     = Some TypeError
   \<and> fst (emit 0 ''channelDelete'' (Args1 text_channel)
       (snd (construct ChannelCacher 0 0 (Some []) world0)))
     = Some TypeError"
  by (simp add: handler_defs class_defs store_defs sample_defs Let_def)

section \<open>Emitted events and the cache\<close>

text \<open>
  C2. The claim is that an emitted create or update event with payload \<open>P\<close> leaves
  \<open>P\<close> in the cache under the derived key. The code does not do so: for a UserCacher,
  a GuildCacher and a RoleCacher constructed on an empty cache 0 and client 0, emitting
  \<^verbatim>\<open>userUpdate\<close>, \<^verbatim>\<open>guildCreate\<close> and \<^verbatim>\<open>guildRoleUpdate\<close> ends in a
  \<open>TypeError\<close>, and \<^verbatim>\<open>get\<close> at the derived key finds nothing afterwards.
\<close>

theorem emitted_update_is_not_stored:
  "fst (emit 0 ''userUpdate'' (Args1 alice) (snd (construct UserCacher 0 0 None world0)))
     = Some TypeError
   \<and> cache_get 0 ''user1''
       (snd (emit 0 ''userUpdate'' (Args1 alice) (snd (construct UserCacher 0 0 None world0))))
     = None
   \<and> fst (emit 0 ''guildCreate'' (Args1 guild123) (snd (construct GuildCacher 0 0 None world0)))
     = Some TypeError
   \<and> cache_get 0 ''guild123''
       (snd (emit 0 ''guildCreate'' (Args1 guild123) (snd (construct GuildCacher 0 0 None world0))))
     = None
   \<and> fst (emit 0 ''guildRoleUpdate'' (Args2 guild123 role1) (snd (construct RoleCacher 0 0 None world0)))
     = Some TypeError
   \<and> cache_get 0 ''role1''
       (snd (emit 0 ''guildRoleUpdate'' (Args2 guild123 role1) (snd (construct RoleCacher 0 0 None world0))))
     = None"
  by (simp add: handler_defs class_defs store_defs sample_defs Let_def)

text \<open>
  C4. The claim is that an emitted channel event is applied exactly when the channel's
  type is in the filter, and always when there is no filter. The code does not do so:
  with filter \<open>[0]\<close> an emitted \<^verbatim>\<open>channelCreate\<close> of a channel of type 0 ends in a
  \<open>TypeError\<close> and leaves no entry; without a filter an emitted \<^verbatim>\<open>channelUpdate\<close>
  does the same; and with filter \<open>[0]\<close> an emitted \<^verbatim>\<open>channelDelete\<close> of a cached
  channel of type 0 leaves the entry in place.
\<close>

theorem emitted_channel_event_is_not_applied:
  "fst (emit 0 ''channelCreate'' (Args1 text_channel) (snd (construct ChannelCacher 0 0 (Some [0]) world0)))
     = Some TypeError
   \<and> cache_get 0 ''chan1''
       (snd (emit 0 ''channelCreate'' (Args1 text_channel) (snd (construct ChannelCacher 0 0 (Some [0]) world0))))
     = None
   \<and> fst (emit 0 ''channelUpdate'' (Args1 voice_channel) (snd (construct ChannelCacher 0 0 None world0)))
     = Some TypeError
   \<and> cache_get 0 ''chan2''
       (snd (emit 0 ''channelUpdate'' (Args1 voice_channel) (snd (construct ChannelCacher 0 0 None world0))))
     = None
   \<and> cache_get 0 ''chan1''
       (snd (emit 0 ''channelDelete'' (Args1 text_channel)
          (snd (construct ChannelCacher 0 0 (Some [0]) (cache_set 0 ''chan1'' text_channel world0)))))
     = Some text_channel"
  by (simp add: handler_defs class_defs store_defs sample_defs Let_def)

text \<open>
  C5. The claim is that \<^verbatim>\<open>guildMemberAdd(guild123, member456)\<close> stores the member
  under \<^verbatim>\<open>guild123:member456\<close> and that a chunk stores every member of its list. The
  code does not do so: both emissions end in a \<open>TypeError\<close> and \<^verbatim>\<open>get\<close> finds
  nothing under the composite keys afterwards.
\<close>

theorem emitted_member_event_is_not_stored:
  "fst (emit 0 ''guildMemberAdd'' (Args2 guild123 member456) (snd (construct MemberCacher 0 0 None world0)))
     = Some TypeError
   \<and> cache_get 0 ''guild123:member456''
       (snd (emit 0 ''guildMemberAdd'' (Args2 guild123 member456) (snd (construct MemberCacher 0 0 None world0))))
     = None
   \<and> fst (emit 0 ''guildMemberChunk'' (ArgsChunk guild123 [member456, member789])
         (snd (construct MemberCacher 0 0 None world0)))
     = Some TypeError
   \<and> cache_get 0 ''guild123:member456''
       (snd (emit 0 ''guildMemberChunk'' (ArgsChunk guild123 [member456, member789])
         (snd (construct MemberCacher 0 0 None world0))))
     = None
   \<and> cache_get 0 ''guild123:member789''
       (snd (emit 0 ''guildMemberChunk'' (ArgsChunk guild123 [member456, member789])
         (snd (construct MemberCacher 0 0 None world0))))
     = None"
  by (simp add: handler_defs class_defs store_defs sample_defs Let_def)

text \<open>
  C6. The claim is that an emitted delete event removes the entry at the derived key and
  is a silent no-op when there is none. The code does not do so: an emitted
  \<^verbatim>\<open>guildDelete\<close> for a cached guild ends in a \<open>TypeError\<close> and the entry is still
  there, and an emitted \<^verbatim>\<open>guildMemberRemove\<close> for a key that is absent ends in a
  \<open>TypeError\<close> as well.
\<close>

theorem emitted_delete_is_not_applied:
  "fst (emit 0 ''guildDelete'' (Args1 guild123)
          (snd (construct GuildCacher 0 0 None (cache_set 0 ''guild123'' guild123 world0))))
     = Some TypeError
   \<and> cache_get 0 ''guild123''
       (snd (emit 0 ''guildDelete'' (Args1 guild123)
          (snd (construct GuildCacher 0 0 None (cache_set 0 ''guild123'' guild123 world0)))))
     = Some guild123
   \<and> cache_get 0 ''guild123:member456'' (snd (construct MemberCacher 0 0 None world0)) = None
   \<and> fst (emit 0 ''guildMemberRemove'' (Args2 guild123 member456)
          (snd (construct MemberCacher 0 0 None world0)))
     = Some TypeError"
  by (simp add: handler_defs class_defs store_defs sample_defs Let_def)

end
